theory Spec2Isabelle
  imports Main "HOL-Library.Word"
begin

section \<open>PVT curve collection with unit-aware output (ECLPvtCurveCollection.cpp)\<close>

text \<open>
  The theory embeds the curve collection of \<^verbatim>\<open>opm/utility/ECLPvtCurveCollection.cpp\<close>:
  the region-tag vector, the helpers of the anonymous namespace and the member functions
  of the class. The tabulated property functions (the gas and oil interpolants), the
  grid and the unit conventions are collaborators declared in other files; they enter
  the model as values of record types and as function arguments, and are taken to
  return normally.

  Sample values are C++ \<^verbatim>\<open>double\<close>s. The code of this file does no arithmetic on them:
  it only stores the literal \<^verbatim>\<open>0.0\<close> and hands vectors to collaborators. The value type
  is therefore a type parameter \<open>'v\<close> with a zero.
\<close>

subsection \<open>Machine integers, errors\<close>

type_synonym cint = "32 word" \<comment> \<open>C++ \<^verbatim>\<open>int\<close>, read with \<open>sint\<close>\<close>
type_synonym size_t = "64 word" \<comment> \<open>\<^verbatim>\<open>std::vector<int>::size_type\<close> on an LP64 platform\<close>

text \<open>
  Three ways in which a call can fail to return a value: a failed \<^verbatim>\<open>assert\<close> (present
  in builds without \<^verbatim>\<open>NDEBUG\<close>), an index outside a vector (undefined behaviour of
  \<^verbatim>\<open>operator[]\<close>, made an explicit outcome here), and the \<^verbatim>\<open>std::invalid_argument\<close>
  exception with its message.
\<close>

datatype error = AssertionFailure | OutOfBounds | InvalidArgument string

text \<open>\<^verbatim>\<open>v.size()\<close> and \<^verbatim>\<open>v[i]\<close> of a \<^verbatim>\<open>std::vector\<close>.\<close>

definition vector_size :: "'a list \<Rightarrow> size_t" where
  "vector_size v = of_nat (length v)"

definition vector_at :: "'a list \<Rightarrow> size_t \<Rightarrow> error + 'a" where
  "vector_at v i = (if unat i < length v then Inr (v ! unat i) else Inl OutOfBounds)"

text \<open>
  A vector held in memory has fewer than \<open>2 ^ 63\<close> elements (its \<^verbatim>\<open>max_size()\<close> is at
  most \<^verbatim>\<open>PTRDIFF_MAX\<close>); HOL lists have no such bound.
\<close>

definition representable :: "'a list \<Rightarrow> bool" where
  "representable v = (length v < 2 ^ 63)"

subsection \<open>Enumerations and collaborators\<close>

text \<open>
  Modelled from the spec: the enumeration \<^verbatim>\<open>ECLPhaseIndex\<close> is declared in a header that
  is not part of the source given here. The spec names the two phase selectors this
  file accepts and calls every other value an invalid request; \<open>OtherPhase k\<close> stands
  for any other value of the enumeration type.
\<close>

datatype ECLPhaseIndex = Liquid | Vapour | OtherPhase nat

text \<open>
  Modelled from the spec: the enumeration \<^verbatim>\<open>ECLPVT::RawCurve\<close> is declared in a header
  that is not part of the source given here. The file compares against the three
  enumerators below and has a final branch for a value that is none of them;
  \<open>OtherCurve k\<close> stands for such a value.
\<close>

datatype RawCurve = FVF | Viscosity | SaturatedState | OtherCurve nat

text \<open>\<^verbatim>\<open>FlowDiagnostics::Graph\<close>: a pair of columns, abscissas first.\<close>

type_synonym 'v Graph = "'v list \<times> 'v list"

text \<open>
  The interface of the interpolants \<^verbatim>\<open>ECLPVT::Gas\<close> and \<^verbatim>\<open>ECLPVT::Oil\<close> that this file
  calls. Both classes offer the same three member functions; the argument wrappers
  (\<^verbatim>\<open>GasPressure\<close>, \<^verbatim>\<open>VaporizedOil\<close>, \<^verbatim>\<open>OilPressure\<close>, \<^verbatim>\<open>DissolvedGas\<close>) each hold one
  vector of \<^verbatim>\<open>double\<close>, so one record type serves both. The order of the arguments of
  the last two is that of the calls: region, mixing ratio, pressure.
\<close>

record 'v PVTInterp =
  pvt_getPvtCurve :: "RawCurve \<Rightarrow> cint \<Rightarrow> 'v Graph list"
  pvt_formationVolumeFactor :: "cint \<Rightarrow> 'v list \<Rightarrow> 'v list \<Rightarrow> 'v list"
  pvt_viscosity :: "cint \<Rightarrow> 'v list \<Rightarrow> 'v list \<Rightarrow> 'v list"

text \<open>
  The converters of \<^verbatim>\<open>ECLUnits::Convert\<close>. The expression
  \<^verbatim>\<open>Convert::Pressure().from(a).to(b)\<close> denotes a \<^verbatim>\<open>PhysicalQuantity\<close>: which quantity,
  from which system, to which system. The converter \<^verbatim>\<open>Convert::Viscosity\<close> is written
  \<open>Viscosity_q\<close>, the name \<open>Viscosity\<close> being that of the curve kind.
\<close>

datatype Quantity =
  Pressure | Viscosity_q | GasFVF | OilFVF | DissolvedGasOilRatio | VaporisedOilGasRatio

record 'u PhysicalQuantity =
  quantity :: Quantity
  usys_from :: 'u
  usys_to :: 'u

definition Convert :: "Quantity \<Rightarrow> 'u \<Rightarrow> 'u \<Rightarrow> 'u PhysicalQuantity" where
  "Convert q usysFrom usysTo = \<lparr>quantity = q, usys_from = usysFrom, usys_to = usysTo\<rparr>"

text \<open>
  Modelled from the spec: \<^verbatim>\<open>PhysicalQuantity::appliedTo\<close> is defined in
  \<^verbatim>\<open>ECLPropertyUnitConversion\<close>, which is not part of the source given here. The spec
  describes it as an in-place conversion of the array or curve column it is given.
  The model converts every element where it stands; what one element becomes is the
  argument \<open>cvt\<close>, about which nothing is assumed.
\<close>

definition appliedTo :: "('u PhysicalQuantity \<Rightarrow> 'v \<Rightarrow> 'v) \<Rightarrow> 'u PhysicalQuantity \<Rightarrow> 'v list \<Rightarrow> 'v list" where
  "appliedTo cvt q x = map (cvt q) x"

text \<open>The grid: the two member functions of \<^verbatim>\<open>ECLGraph\<close> that the file calls.\<close>

record 'i ECLGraph =
  rawLinearisedCellData :: "'i \<Rightarrow> string \<Rightarrow> cint list"
  numCells :: nat

text \<open>The factories and unit conventions that the constructor calls.\<close>

record ('i, 'u, 'v) ECLFactories =
  CreateGasPVTInterpolant_fromECLOutput :: "'i \<Rightarrow> 'v PVTInterp option"
  CreateOilPVTInterpolant_fromECLOutput :: "'i \<Rightarrow> 'v PVTInterp option"
  serialisedUnitConventions :: "'i \<Rightarrow> 'u"
  internalUnitConventions :: 'u

subsection \<open>Helpers of the anonymous namespace\<close>

definition pvtnumVector :: "'i ECLGraph \<Rightarrow> 'i \<Rightarrow> cint list" where
  "pvtnumVector G init =
     (let pvtnum = rawLinearisedCellData G init ''PVTNUM''
      in if pvtnum = [] then replicate (numCells G) 1 else pvtnum)"

definition emptyFDGraph :: "'v Graph list" where
  "emptyFDGraph = [([], [])]"

definition rawPvtCurve :: "'v PVTInterp option \<Rightarrow> RawCurve \<Rightarrow> cint \<Rightarrow> 'v Graph list" where
  "rawPvtCurve pvt curve regID =
     (case pvt of
        None \<Rightarrow> emptyFDGraph
      | Some p \<Rightarrow> pvt_getPvtCurve p curve regID)"

definition formationVolumeFactor ::
  "'v PVTInterp option \<Rightarrow> cint \<Rightarrow> 'v list \<Rightarrow> 'v list \<Rightarrow> error + 'v list" where
  "formationVolumeFactor pvt regID press R =
     (case pvt of
        None \<Rightarrow> Inl AssertionFailure
      | Some p \<Rightarrow> Inr (pvt_formationVolumeFactor p regID R press))"

definition viscosity ::
  "'v PVTInterp option \<Rightarrow> cint \<Rightarrow> 'v list \<Rightarrow> 'v list \<Rightarrow> error + 'v list" where
  "viscosity pvt regID press R =
     (case pvt of
        None \<Rightarrow> Inl AssertionFailure
      | Some p \<Rightarrow> Inr (pvt_viscosity p regID R press))"

definition gasProperty ::
  "'v::zero PVTInterp option \<Rightarrow> RawCurve \<Rightarrow> cint \<Rightarrow> 'v list \<Rightarrow> 'v list \<Rightarrow> error + 'v list" where
  "gasProperty pvt property regID Pg Rv =
     (if pvt = None then Inr []
      else if \<not> (property = FVF \<or> property = Viscosity) then Inl AssertionFailure
      else
        let pg = Pg;
            rv = (if Rv = [] then replicate (length pg) 0 else Rv)
        in if property = FVF then formationVolumeFactor pvt regID pg rv
           else viscosity pvt regID pg rv)"

definition oilProperty ::
  "'v::zero PVTInterp option \<Rightarrow> RawCurve \<Rightarrow> cint \<Rightarrow> 'v list \<Rightarrow> 'v list \<Rightarrow> error + 'v list" where
  "oilProperty pvt property regID Po Rs =
     (if pvt = None then Inr []
      else if \<not> (property = FVF \<or> property = Viscosity) then Inl AssertionFailure
      else
        let po = Po;
            rs = (if Rs = [] then replicate (length po) 0 else Rs)
        in if property = FVF then formationVolumeFactor pvt regID po rs
           else viscosity pvt regID po rs)"

text \<open>The loop over the series of a curve: both columns of each series are converted.\<close>

fun convertCurve ::
  "('u PhysicalQuantity \<Rightarrow> 'v \<Rightarrow> 'v) \<Rightarrow> 'v Graph list \<Rightarrow> 'u PhysicalQuantity \<Rightarrow> 'u PhysicalQuantity
     \<Rightarrow> 'v Graph list" where
  "convertCurve cvt [] cvrt_x cvrt_y = []"
| "convertCurve cvt (curve # curves) cvrt_x cvrt_y =
     (appliedTo cvt cvrt_x (fst curve), appliedTo cvt cvrt_y (snd curve))
       # convertCurve cvt curves cvrt_x cvrt_y"

definition convertFvfCurve ::
  "('u PhysicalQuantity \<Rightarrow> 'v \<Rightarrow> 'v) \<Rightarrow> 'v Graph list \<Rightarrow> ECLPhaseIndex \<Rightarrow> 'u \<Rightarrow> 'u
     \<Rightarrow> error + 'v Graph list" where
  "convertFvfCurve cvt curve phase usysFrom usysTo =
     (if \<not> (phase = Liquid \<or> phase = Vapour) then Inl AssertionFailure
      else if phase = Liquid then
        let cvrt_x = Convert Pressure usysFrom usysTo;
            cvrt_y = Convert OilFVF usysFrom usysTo
        in Inr (convertCurve cvt curve cvrt_x cvrt_y)
      else
        let cvrt_y = Convert GasFVF usysFrom usysTo
        in if length curve \<le> 1 then
             let cvrt_x = Convert Pressure usysFrom usysTo
             in Inr (convertCurve cvt curve cvrt_x cvrt_y)
           else
             let cvrt_x = Convert VaporisedOilGasRatio usysFrom usysTo
             in Inr (convertCurve cvt curve cvrt_x cvrt_y))"

definition convertViscosityCurve ::
  "('u PhysicalQuantity \<Rightarrow> 'v \<Rightarrow> 'v) \<Rightarrow> 'v Graph list \<Rightarrow> ECLPhaseIndex \<Rightarrow> 'u \<Rightarrow> 'u
     \<Rightarrow> error + 'v Graph list" where
  "convertViscosityCurve cvt curve phase usysFrom usysTo =
     (if \<not> (phase = Liquid \<or> phase = Vapour) then Inl AssertionFailure
      else
        let cvrt_y = Convert Viscosity_q usysFrom usysTo
        in if phase = Liquid \<or> length curve \<le> 1 then
             let cvrt_x = Convert Pressure usysFrom usysTo
             in Inr (convertCurve cvt curve cvrt_x cvrt_y)
           else
             let cvrt_x = Convert VaporisedOilGasRatio usysFrom usysTo
             in Inr (convertCurve cvt curve cvrt_x cvrt_y))"

definition convertSatStateCurve ::
  "('u PhysicalQuantity \<Rightarrow> 'v \<Rightarrow> 'v) \<Rightarrow> 'v Graph list \<Rightarrow> ECLPhaseIndex \<Rightarrow> 'u \<Rightarrow> 'u
     \<Rightarrow> error + 'v Graph list" where
  "convertSatStateCurve cvt curve phase usysFrom usysTo =
     (if \<not> (phase = Liquid \<or> phase = Vapour) then Inl AssertionFailure
      else
        let cvrt_x = Convert Pressure usysFrom usysTo
        in if phase = Liquid then
             let cvrt_y = Convert DissolvedGasOilRatio usysFrom usysTo
             in Inr (convertCurve cvt curve cvrt_x cvrt_y)
           else
             let cvrt_y = Convert VaporisedOilGasRatio usysFrom usysTo
             in Inr (convertCurve cvt curve cvrt_x cvrt_y))"

subsection \<open>The class\<close>

text \<open>
  The data members; each name is the source's without its trailing underscore (which
  the term syntax of Isabelle does not admit). The native and internal unit systems
  are set by the constructor and dereferenced without a test by \<^verbatim>\<open>convertToOutputUnits\<close>; they are values here,
  and the two assertions of \<^verbatim>\<open>getDynamicPropertyNative\<close> that they are not null hold by
  the type. The output unit system and the two interpolants may be null.
\<close>

record ('u, 'v) ECLPvtCurveCollection =
  pvtnum :: "cint list"
  gas :: "'v PVTInterp option"
  oil :: "'v PVTInterp option"
  usys_native :: 'u
  usys_internal :: 'u
  usys_output :: "'u option"

definition ECLPvtCurveCollection_ctor ::
  "('i, 'u, 'v) ECLFactories \<Rightarrow> 'i ECLGraph \<Rightarrow> 'i \<Rightarrow> ('u, 'v) ECLPvtCurveCollection" where
  "ECLPvtCurveCollection_ctor ext G init =
     \<lparr>pvtnum = pvtnumVector G init,
      gas = CreateGasPVTInterpolant_fromECLOutput ext init,
      oil = CreateOilPVTInterpolant_fromECLOutput ext init,
      usys_native = serialisedUnitConventions ext init,
      usys_internal = internalUnitConventions ext,
      usys_output = None\<rparr>"

definition setOutputUnits ::
  "('u, 'v) ECLPvtCurveCollection \<Rightarrow> 'u option \<Rightarrow> ('u, 'v) ECLPvtCurveCollection" where
  "setOutputUnits this usys = this\<lparr>usys_output := usys\<rparr>"

text \<open>
  The cast \<^verbatim>\<open>static_cast<size_type>(activeCell)\<close> of a signed 32-bit value to the
  unsigned 64-bit size type is sign extension, \<open>scast\<close>.
\<close>

definition isValidRequest :: "('u, 'v) ECLPvtCurveCollection \<Rightarrow> ECLPhaseIndex \<Rightarrow> cint \<Rightarrow> bool" where
  "isValidRequest this phase activeCell =
     (if \<not> (phase = Liquid \<or> phase = Vapour) then False
      else (scast activeCell :: size_t) < vector_size (pvtnum this))"

definition convertToOutputUnits ::
  "('u PhysicalQuantity \<Rightarrow> 'v \<Rightarrow> 'v) \<Rightarrow> ('u, 'v) ECLPvtCurveCollection \<Rightarrow> 'v Graph list \<Rightarrow> RawCurve
     \<Rightarrow> ECLPhaseIndex \<Rightarrow> error + 'v Graph list" where
  "convertToOutputUnits cvt this graph curve phase =
     (case usys_output this of
        None \<Rightarrow> Inr graph
      | Some usys_out \<Rightarrow>
          if \<not> (phase = Liquid \<or> phase = Vapour) then Inl AssertionFailure
          else if curve = FVF then
            convertFvfCurve cvt graph phase (usys_internal this) usys_out
          else if curve = Viscosity then
            convertViscosityCurve cvt graph phase (usys_internal this) usys_out
          else if curve = SaturatedState then
            convertSatStateCurve cvt graph phase (usys_internal this) usys_out
          else Inl (InvalidArgument ''Internal Logic Error''))"

text \<open>
  \<^verbatim>\<open>pvtnum_[activeCell] - 1\<close>: the index is converted to the size type as above; the
  subtraction is that of \<^verbatim>\<open>int\<close>, here with wrap-around (at the least \<^verbatim>\<open>int\<close> the C++
  subtraction is undefined; no statement below depends on that tag).
\<close>

definition getPvtCurve ::
  "('u PhysicalQuantity \<Rightarrow> 'v \<Rightarrow> 'v) \<Rightarrow> ('u, 'v) ECLPvtCurveCollection \<Rightarrow> RawCurve \<Rightarrow> ECLPhaseIndex
     \<Rightarrow> cint \<Rightarrow> error + 'v Graph list" where
  "getPvtCurve cvt this curve phase activeCell =
     (if \<not> isValidRequest this phase activeCell then Inr emptyFDGraph
      else
        case vector_at (pvtnum this) (scast activeCell) of
          Inl e \<Rightarrow> Inl e
        | Inr tag \<Rightarrow>
            let regID = tag - 1
            in if phase = Liquid then
                 convertToOutputUnits cvt this (rawPvtCurve (oil this) curve regID) curve phase
               else if phase \<noteq> Vapour then Inl AssertionFailure
               else
                 convertToOutputUnits cvt this (rawPvtCurve (gas this) curve regID) curve phase)"

definition getDynamicPropertySI ::
  "('u, 'v::zero) ECLPvtCurveCollection \<Rightarrow> RawCurve \<Rightarrow> ECLPhaseIndex \<Rightarrow> cint \<Rightarrow> 'v list \<Rightarrow> 'v list
     \<Rightarrow> error + 'v list" where
  "getDynamicPropertySI this property phase activeCell phasePress mixRatio =
     (if \<not> isValidRequest this phase activeCell \<or> property = SaturatedState then Inr []
      else
        case vector_at (pvtnum this) (scast activeCell) of
          Inl e \<Rightarrow> Inl e
        | Inr tag \<Rightarrow>
            let regID = tag - 1
            in if phase = Liquid then
                 oilProperty (oil this) property regID phasePress mixRatio
               else if phase \<noteq> Vapour then Inl AssertionFailure
               else gasProperty (gas this) property regID phasePress mixRatio)"

definition getDynamicPropertyNative ::
  "('u PhysicalQuantity \<Rightarrow> 'v \<Rightarrow> 'v) \<Rightarrow> ('u, 'v::zero) ECLPvtCurveCollection \<Rightarrow> RawCurve
     \<Rightarrow> ECLPhaseIndex \<Rightarrow> cint \<Rightarrow> 'v list \<Rightarrow> 'v list \<Rightarrow> error + 'v list" where
  "getDynamicPropertyNative cvt this property phase activeCell phasePress mixRatio =
     (if \<not> isValidRequest this phase activeCell \<or> property = SaturatedState then Inr []
      else
        let phasePress' =
              appliedTo cvt (Convert Pressure (usys_native this) (usys_internal this)) phasePress
        in case (if phase = Liquid then
                   Inr (appliedTo cvt
                          (Convert DissolvedGasOilRatio (usys_native this) (usys_internal this))
                          mixRatio)
                 else if phase \<noteq> Vapour then Inl AssertionFailure
                 else
                   Inr (appliedTo cvt
                          (Convert VaporisedOilGasRatio (usys_native this) (usys_internal this))
                          mixRatio)) of
             Inl e \<Rightarrow> Inl e
           | Inr mixRatio' \<Rightarrow>
               (case getDynamicPropertySI this property phase activeCell phasePress' mixRatio' of
                  Inl e \<Rightarrow> Inl e
                | Inr prop \<Rightarrow>
                    (case usys_output this of
                       None \<Rightarrow> Inr prop
                     | Some usys_out \<Rightarrow>
                         if property = Viscosity then
                           Inr (appliedTo cvt
                                  (Convert Viscosity_q (usys_internal this) usys_out) prop)
                         else if property \<noteq> FVF then Inl AssertionFailure
                         else if phase = Vapour then
                           Inr (appliedTo cvt
                                  (Convert GasFVF (usys_internal this) usys_out) prop)
                         else if phase \<noteq> Liquid then Inl AssertionFailure
                         else
                           Inr (appliedTo cvt
                                  (Convert OilFVF (usys_internal this) usys_out) prop))))"

subsection \<open>Descriptions used in the statements\<close>

text \<open>
  What it means for a curve to have its abscissas converted as \<open>qx\<close> and its ordinates
  as \<open>qy\<close>: every series keeps its place, and each of its two columns is converted
  element by element.
\<close>

definition converted_axes ::
  "('u PhysicalQuantity \<Rightarrow> 'v \<Rightarrow> 'v) \<Rightarrow> 'u PhysicalQuantity \<Rightarrow> 'u PhysicalQuantity \<Rightarrow> 'v Graph list
     \<Rightarrow> 'v Graph list" where
  "converted_axes cvt qx qy curve = map (\<lambda>g. (map (cvt qx) (fst g), map (cvt qy) (snd g))) curve"

text \<open>
  The three stages of the native-unit query in the words of the specification: inputs
  to internal units (pressure as pressure, the mixing ratio as the ratio of the phase),
  evaluation in internal units, result to output units if an output system is set
  (viscosity as viscosity, a formation volume factor as that of the phase).
\<close>

definition ratioQuantity :: "ECLPhaseIndex \<Rightarrow> Quantity" where
  "ratioQuantity phase = (if phase = Liquid then DissolvedGasOilRatio else VaporisedOilGasRatio)"

definition outputQuantity :: "RawCurve \<Rightarrow> ECLPhaseIndex \<Rightarrow> Quantity" where
  "outputQuantity property phase =
     (if property = Viscosity then Viscosity_q
      else if phase = Vapour then GasFVF
      else OilFVF)"

definition nativePipeline ::
  "('u PhysicalQuantity \<Rightarrow> 'v \<Rightarrow> 'v) \<Rightarrow> ('u, 'v::zero) ECLPvtCurveCollection \<Rightarrow> RawCurve
     \<Rightarrow> ECLPhaseIndex \<Rightarrow> cint \<Rightarrow> 'v list \<Rightarrow> 'v list \<Rightarrow> error + 'v list" where
  "nativePipeline cvt this property phase activeCell phasePress mixRatio =
     (let pressSI = map (cvt (Convert Pressure (usys_native this) (usys_internal this))) phasePress;
          ratioSI = map (cvt (Convert (ratioQuantity phase) (usys_native this) (usys_internal this)))
                      mixRatio
      in case getDynamicPropertySI this property phase activeCell pressSI ratioSI of
           Inl e \<Rightarrow> Inl e
         | Inr propSI \<Rightarrow>
             (case usys_output this of
                None \<Rightarrow> Inr propSI
              | Some usys_out \<Rightarrow>
                  Inr (map (cvt (Convert (outputQuantity property phase) (usys_internal this) usys_out))
                         propSI)))"

text \<open>The three curve kinds that the file names.\<close>

definition recognised :: "RawCurve \<Rightarrow> bool" where
  "recognised curve = (curve = FVF \<or> curve = Viscosity \<or> curve = SaturatedState)"

text \<open>The interpolant that serves a phase: oil for \<open>Liquid\<close>, gas otherwise.\<close>

definition interpolant :: "('u, 'v) ECLPvtCurveCollection \<Rightarrow> ECLPhaseIndex \<Rightarrow> 'v PVTInterp option" where
  "interpolant this phase = (if phase = Liquid then oil this else gas this)"

text \<open>
  The curve in internal units, as the interpolant of the phase tabulates it for the
  region of the cell, and the single empty series for a request that is not valid.
\<close>

definition internalCurve ::
  "('u, 'v) ECLPvtCurveCollection \<Rightarrow> RawCurve \<Rightarrow> ECLPhaseIndex \<Rightarrow> cint \<Rightarrow> 'v Graph list" where
  "internalCurve this curve phase activeCell =
     (if isValidRequest this phase activeCell
      then rawPvtCurve (interpolant this phase) curve
             (pvtnum this ! unat (scast activeCell :: size_t) - 1)
      else [([], [])])"

text \<open>
  Modelled from the spec: the converters themselves are defined in
  \<^verbatim>\<open>ECLPropertyUnitConversion\<close>, which is not part of the source given here. The spec
  identifies a converter by the scale factor it applies; \<open>scaleConverter\<close> is a
  converter of that form, multiplying each value by the factor of its quantity.
\<close>

definition scaleConverter ::
  "('u PhysicalQuantity \<Rightarrow> 'v) \<Rightarrow> 'u PhysicalQuantity \<Rightarrow> 'v::times \<Rightarrow> 'v" where
  "scaleConverter scaleFactor q x = x * scaleFactor q"

subsection \<open>A small case for concrete evaluation\<close>

text \<open>
  Three cells with region tags 1, 1, 2; a gas interpolant and no oil interpolant; unit
  systems named 0 (native), 1 (internal) and 2 (output); integer sample values; a scale
  factor that tells the six quantities apart. A ten-cell grid without region tags.
\<close>

definition tabulated :: "int PVTInterp" where
  "tabulated =
     \<lparr>pvt_getPvtCurve = (\<lambda>curve regID. [([1, 2], [3, 4]), ([5], [6])]),
      pvt_formationVolumeFactor = (\<lambda>regID R press. map (\<lambda>p. p + 1) press),
      pvt_viscosity = (\<lambda>regID R press. map2 (\<lambda>r p. r + p) R press)\<rparr>"

definition demo :: "(nat, int) ECLPvtCurveCollection" where
  "demo = \<lparr>pvtnum = [1, 1, 2], gas = Some tabulated, oil = None,
            usys_native = 0, usys_internal = 1, usys_output = Some 2\<rparr>"

definition demoScale :: "nat PhysicalQuantity \<Rightarrow> int" where
  "demoScale q =
     (case quantity q of
        Pressure \<Rightarrow> 2 | Viscosity_q \<Rightarrow> 3 | GasFVF \<Rightarrow> 5 | OilFVF \<Rightarrow> 7
      | DissolvedGasOilRatio \<Rightarrow> 11 | VaporisedOilGasRatio \<Rightarrow> 13)"

definition uniformGrid :: "unit ECLGraph" where
  "uniformGrid = \<lparr>rawLinearisedCellData = (\<lambda>init kw. []), numCells = 10\<rparr>"

definition factories :: "(unit, nat, int) ECLFactories" where
  "factories =
     \<lparr>CreateGasPVTInterpolant_fromECLOutput = (\<lambda>init. Some tabulated),
      CreateOilPVTInterpolant_fromECLOutput = (\<lambda>init. Some tabulated),
      serialisedUnitConventions = (\<lambda>init. 0),
      internalUnitConventions = 1\<rparr>"

section \<open>Properties\<close>

subsection \<open>The cell index as a vector index\<close>

text \<open>
  The index that reaches the region-tag vector is the sign extension of a 32-bit value
  read as a 64-bit unsigned one: the value itself when it is not negative, and at least
  \<open>2 ^ 63\<close> when it is.
\<close>

lemma sint_cint_bounds:
  fixes c :: cint
  shows "- 2147483648 \<le> sint c" and "sint c < 2147483648"
  using sint_ge [of c] sint_lt [of c] by simp_all

lemma unat_scast_cint:
  fixes c :: cint
  shows "unat (scast c :: size_t) = nat (sint c mod 18446744073709551616)"
proof -
  have "uint (word_of_int (sint c) :: size_t) = sint c mod 2 ^ LENGTH(64)"
    by (rule uint_word_of_int)
  then have "uint (scast c :: size_t) = sint c mod 2 ^ LENGTH(64)"
    by (simp only: scast_eq)
  then have "uint (scast c :: size_t) = sint c mod 18446744073709551616"
    by simp
  then show ?thesis by (simp only: unat_eq_nat_uint)
qed

lemma unat_scast_nonneg:
  fixes c :: cint
  assumes "0 \<le> sint c"
  shows "unat (scast c :: size_t) = nat (sint c)"
proof -
  have "sint c mod 18446744073709551616 = sint c"
    using assms sint_cint_bounds(2) [of c] by (intro mod_pos_pos_trivial) linarith+
  then show ?thesis by (simp only: unat_scast_cint)
qed

lemma unat_scast_neg:
  fixes c :: cint
  assumes "sint c < 0"
  shows "2 ^ 63 \<le> unat (scast c :: size_t)"
proof -
  have "(sint c + 18446744073709551616) mod 18446744073709551616
          = sint c + 18446744073709551616"
    using assms sint_cint_bounds(1) [of c] by (intro mod_pos_pos_trivial) linarith+
  then have "sint c mod 18446744073709551616 = sint c + 18446744073709551616"
    by (simp only: mod_add_self2)
  then have "unat (scast c :: size_t) = nat (sint c + 18446744073709551616)"
    by (simp only: unat_scast_cint)
  moreover have "9223372036854775808 \<le> nat (sint c + 18446744073709551616)"
    using sint_cint_bounds(1) [of c] by linarith
  ultimately show ?thesis by simp
qed

lemma isValidRequest_phase:
  "isValidRequest this phase activeCell \<Longrightarrow> phase = Liquid \<or> phase = Vapour"
  by (simp add: isValidRequest_def split: if_splits)

lemma isValidRequest_index:
  assumes "isValidRequest this phase activeCell"
  shows "unat (scast activeCell :: size_t) < length (pvtnum this)"
proof -
  from assms have "(scast activeCell :: size_t) < vector_size (pvtnum this)"
    by (simp add: isValidRequest_def split: if_splits)
  then have "unat (scast activeCell :: size_t) < unat (of_nat (length (pvtnum this)) :: size_t)"
    by (simp only: vector_size_def word_less_nat_alt)
  also have "\<dots> \<le> length (pvtnum this)"
    unfolding unat_of_nat by (rule mod_less_eq_dividend)
  finally show ?thesis .
qed

lemma isValidRequest_nonneg:
  assumes "isValidRequest this phase activeCell" and "representable (pvtnum this)"
  shows "0 \<le> sint activeCell"
proof (rule ccontr)
  assume "\<not> 0 \<le> sint activeCell"
  then have "sint activeCell < 0" by simp
  then have "2 ^ 63 \<le> unat (scast activeCell :: size_t)"
    by (rule unat_scast_neg)
  moreover have "unat (scast activeCell :: size_t) < length (pvtnum this)"
    using assms(1) by (rule isValidRequest_index)
  ultimately show False using assms(2) by (simp add: representable_def)
qed

lemma vector_at_valid:
  "isValidRequest this phase activeCell \<Longrightarrow>
     vector_at (pvtnum this) (scast activeCell)
       = Inr (pvtnum this ! unat (scast activeCell :: size_t))"
  by (simp add: vector_at_def isValidRequest_index)

subsection \<open>The public operations on requests that are and are not valid\<close>

lemma getPvtCurve_invalid:
  "\<not> isValidRequest this phase activeCell \<Longrightarrow>
     getPvtCurve cvt this curve phase activeCell = Inr emptyFDGraph"
  by (simp add: getPvtCurve_def)

lemma getDynamicPropertySI_invalid:
  "\<not> isValidRequest this phase activeCell \<or> property = SaturatedState \<Longrightarrow>
     getDynamicPropertySI this property phase activeCell phasePress mixRatio = Inr []"
  by (simp add: getDynamicPropertySI_def)

lemma getDynamicPropertyNative_invalid:
  "\<not> isValidRequest this phase activeCell \<or> property = SaturatedState \<Longrightarrow>
     getDynamicPropertyNative cvt this property phase activeCell phasePress mixRatio = Inr []"
  by (simp add: getDynamicPropertyNative_def)

lemma getPvtCurve_valid:
  assumes "isValidRequest this phase activeCell"
  shows "getPvtCurve cvt this curve phase activeCell =
           convertToOutputUnits cvt this
             (rawPvtCurve (if phase = Liquid then oil this else gas this) curve
                (pvtnum this ! unat (scast activeCell :: size_t) - 1))
             curve phase"
  using assms isValidRequest_phase [OF assms]
  by (auto simp add: getPvtCurve_def vector_at_valid Let_def)

lemma getDynamicPropertySI_valid:
  assumes "isValidRequest this phase activeCell" and "property \<noteq> SaturatedState"
  shows "getDynamicPropertySI this property phase activeCell phasePress mixRatio =
           (if phase = Liquid
            then oilProperty (oil this) property
                   (pvtnum this ! unat (scast activeCell :: size_t) - 1) phasePress mixRatio
            else gasProperty (gas this) property
                   (pvtnum this ! unat (scast activeCell :: size_t) - 1) phasePress mixRatio)"
  using assms isValidRequest_phase [OF assms(1)]
  by (auto simp add: getDynamicPropertySI_def vector_at_valid Let_def)

lemma convertToOutputUnits_no_output:
  "usys_output this = None \<Longrightarrow> convertToOutputUnits cvt this graph curve phase = Inr graph"
  by (simp add: convertToOutputUnits_def)

lemma isValidRequest_setOutputUnits [simp]:
  "isValidRequest (setOutputUnits this usys) phase activeCell = isValidRequest this phase activeCell"
  by (simp add: isValidRequest_def setOutputUnits_def)

lemma getPvtCurve_no_output:
  assumes "usys_output this = None"
  shows "getPvtCurve cvt this curve phase activeCell = Inr (internalCurve this curve phase activeCell)"
proof (cases "isValidRequest this phase activeCell")
  case False
  then show ?thesis
    by (simp add: getPvtCurve_invalid internalCurve_def emptyFDGraph_def)
next
  case True
  then show ?thesis
    by (simp add: getPvtCurve_valid convertToOutputUnits_no_output [OF assms]
          internalCurve_def interpolant_def)
qed

lemma internalCurve_setOutputUnits:
  "internalCurve (setOutputUnits this usys) curve phase activeCell
     = internalCurve this curve phase activeCell"
  by (simp add: internalCurve_def interpolant_def) (simp add: setOutputUnits_def)

subsection \<open>Which converter goes to which axis\<close>

lemma convertCurve_converted_axes:
  "convertCurve cvt curve qx qy = converted_axes cvt qx qy curve"
  by (induction curve) (simp_all add: converted_axes_def appliedTo_def)

text \<open>
  \<^bold>\<open>C1.\<close> For a gas (\<open>Vapour\<close>) curve of formation volume factor or of viscosity, the
  abscissas are converted as pressure when the curve has at most one series and as
  vaporised oil-gas ratio when it has two or more; the ordinates are converted as gas
  formation volume factor, respectively as viscosity. For the \<open>Liquid\<close> phase the
  abscissas are converted as pressure for every curve kind and every number of series.
\<close>

theorem gas_curve_x_axis_by_series_count:
  "convertFvfCurve cvt curve Vapour usysFrom usysTo =
     Inr (converted_axes cvt
            (Convert (if length curve \<le> 1 then Pressure else VaporisedOilGasRatio) usysFrom usysTo)
            (Convert GasFVF usysFrom usysTo) curve)
   \<and> convertViscosityCurve cvt curve Vapour usysFrom usysTo =
     Inr (converted_axes cvt
            (Convert (if length curve \<le> 1 then Pressure else VaporisedOilGasRatio) usysFrom usysTo)
            (Convert Viscosity_q usysFrom usysTo) curve)
   \<and> convertFvfCurve cvt curve Liquid usysFrom usysTo =
     Inr (converted_axes cvt (Convert Pressure usysFrom usysTo)
            (Convert OilFVF usysFrom usysTo) curve)
   \<and> convertViscosityCurve cvt curve Liquid usysFrom usysTo =
     Inr (converted_axes cvt (Convert Pressure usysFrom usysTo)
            (Convert Viscosity_q usysFrom usysTo) curve)
   \<and> convertSatStateCurve cvt curve Liquid usysFrom usysTo =
     Inr (converted_axes cvt (Convert Pressure usysFrom usysTo)
            (Convert DissolvedGasOilRatio usysFrom usysTo) curve)"
  by (simp add: convertFvfCurve_def convertViscosityCurve_def convertSatStateCurve_def
        convertCurve_converted_axes Let_def)

text \<open>
  \<^bold>\<open>C4.\<close> A saturated-state curve, whatever its phase and number of series, has its
  abscissas converted as pressure; its ordinates are converted as dissolved gas-oil
  ratio for \<open>Liquid\<close> and as vaporised oil-gas ratio for \<open>Vapour\<close>.
\<close>

theorem saturated_state_axes:
  "convertSatStateCurve cvt curve Liquid usysFrom usysTo =
     Inr (converted_axes cvt (Convert Pressure usysFrom usysTo)
            (Convert DissolvedGasOilRatio usysFrom usysTo) curve)
   \<and> convertSatStateCurve cvt curve Vapour usysFrom usysTo =
     Inr (converted_axes cvt (Convert Pressure usysFrom usysTo)
            (Convert VaporisedOilGasRatio usysFrom usysTo) curve)"
  by (simp add: convertSatStateCurve_def convertCurve_converted_axes Let_def)

subsection \<open>The native-unit query as a pipeline\<close>

lemma oilProperty_returns:
  "property = FVF \<or> property = Viscosity \<Longrightarrow> \<exists>vs. oilProperty pvt property regID Po Rs = Inr vs"
  by (cases pvt) (auto simp add: oilProperty_def formationVolumeFactor_def viscosity_def Let_def)

lemma gasProperty_returns:
  "property = FVF \<or> property = Viscosity \<Longrightarrow> \<exists>vs. gasProperty pvt property regID Pg Rv = Inr vs"
  by (cases pvt) (auto simp add: gasProperty_def formationVolumeFactor_def viscosity_def Let_def)

lemma getDynamicPropertySI_returns:
  assumes "isValidRequest this phase activeCell" and "property = FVF \<or> property = Viscosity"
  shows "\<exists>vs. getDynamicPropertySI this property phase activeCell phasePress mixRatio = Inr vs"
proof -
  from assms(2) have "property \<noteq> SaturatedState" by auto
  with assms(1) show ?thesis
    by (simp add: getDynamicPropertySI_valid oilProperty_returns [OF assms(2)]
          gasProperty_returns [OF assms(2)])
qed

text \<open>
  \<^bold>\<open>C2.\<close> For a valid request (a cell index in range, which includes that the phase is
  \<open>Liquid\<close> or \<open>Vapour\<close>) for the formation volume factor or the viscosity, the
  native-unit query is the three-stage pipeline \<open>nativePipeline\<close>, and it returns a
  value array.
\<close>

theorem getDynamicPropertyNative_pipeline:
  assumes "isValidRequest this phase activeCell" and "property = FVF \<or> property = Viscosity"
  shows "getDynamicPropertyNative cvt this property phase activeCell phasePress mixRatio =
           nativePipeline cvt this property phase activeCell phasePress mixRatio
         \<and> (\<exists>vs. getDynamicPropertyNative cvt this property phase activeCell phasePress mixRatio
                  = Inr vs)"
proof -
  have ph: "phase = Liquid \<or> phase = Vapour"
    using assms(1) by (rule isValidRequest_phase)
  have eq: "getDynamicPropertyNative cvt this property phase activeCell phasePress mixRatio =
           nativePipeline cvt this property phase activeCell phasePress mixRatio"
    using assms ph
    by (auto simp add: getDynamicPropertyNative_def nativePipeline_def ratioQuantity_def
          outputQuantity_def appliedTo_def Let_def split: sum.splits option.splits)
  obtain vs where "getDynamicPropertySI this property phase activeCell
      (map (cvt (Convert Pressure (usys_native this) (usys_internal this))) phasePress)
      (map (cvt (Convert (ratioQuantity phase) (usys_native this) (usys_internal this))) mixRatio)
      = Inr vs"
    using getDynamicPropertySI_returns [OF assms] by blast
  then have "\<exists>ws. nativePipeline cvt this property phase activeCell phasePress mixRatio = Inr ws"
    by (simp add: nativePipeline_def Let_def split: option.splits)
  with eq show ?thesis by simp
qed

theorem getDynamicPropertyNative_pipeline_witness:
  "isValidRequest demo Vapour 0
   \<and> getDynamicPropertyNative (scaleConverter demoScale) demo Viscosity Vapour 0 [100] [3]
       = Inr [717]
   \<and> getDynamicPropertyNative (scaleConverter demoScale) demo FVF Vapour 2 [100] [3]
       = Inr [1005]"
proof -
  have v0: "isValidRequest demo Vapour 0" and v2: "isValidRequest demo Vapour 2"
    by (simp_all add: isValidRequest_def demo_def vector_size_def)
  have p: "Viscosity = FVF \<or> Viscosity = Viscosity" and q: "FVF = FVF \<or> FVF = Viscosity"
    by simp_all
  have e0: "nativePipeline (scaleConverter demoScale) demo Viscosity Vapour 0 [100] [3]
              = Inr [717]"
    unfolding nativePipeline_def Let_def
    by (simp add: getDynamicPropertySI_valid [OF v0])
       (simp add: demo_def gasProperty_def viscosity_def tabulated_def ratioQuantity_def
          outputQuantity_def scaleConverter_def demoScale_def Convert_def)
  have e2: "nativePipeline (scaleConverter demoScale) demo FVF Vapour 2 [100] [3]
              = Inr [1005]"
    unfolding nativePipeline_def Let_def
    by (simp add: getDynamicPropertySI_valid [OF v2])
       (simp add: demo_def gasProperty_def formationVolumeFactor_def tabulated_def
          ratioQuantity_def outputQuantity_def scaleConverter_def demoScale_def Convert_def)
  show ?thesis
    using getDynamicPropertyNative_pipeline
        [OF v0 p, of "scaleConverter demoScale" "[100]" "[3]"]
      getDynamicPropertyNative_pipeline
        [OF v2 q, of "scaleConverter demoScale" "[100]" "[3]"]
    by (simp add: v0 e0 e2)
qed

subsection \<open>Requests that yield the empty result\<close>

lemma convertCurve_emptyFDGraph: "convertCurve cvt emptyFDGraph qx qy = emptyFDGraph"
  by (simp add: emptyFDGraph_def appliedTo_def)

lemma convertToOutputUnits_empty:
  assumes "phase = Liquid \<or> phase = Vapour" and "recognised curve \<or> usys_output this = None"
  shows "convertToOutputUnits cvt this emptyFDGraph curve phase = Inr emptyFDGraph"
proof (cases "usys_output this")
  case None
  then show ?thesis by (rule convertToOutputUnits_no_output)
next
  case (Some uo)
  with assms(2) have "recognised curve" by simp
  with Some assms(1) show ?thesis
    by (auto simp add: convertToOutputUnits_def recognised_def convertFvfCurve_def
          convertViscosityCurve_def convertSatStateCurve_def convertCurve_emptyFDGraph Let_def)
qed

lemma getPvtCurve_absent:
  assumes "interpolant this phase = None" and "recognised curve \<or> usys_output this = None"
  shows "getPvtCurve cvt this curve phase activeCell = Inr emptyFDGraph"
proof (cases "isValidRequest this phase activeCell")
  case False
  then show ?thesis by (rule getPvtCurve_invalid)
next
  case True
  have ph: "phase = Liquid \<or> phase = Vapour" using True by (rule isValidRequest_phase)
  have "rawPvtCurve (if phase = Liquid then oil this else gas this) curve
          (pvtnum this ! unat (scast activeCell :: size_t) - 1) = emptyFDGraph"
    using assms(1) by (simp add: interpolant_def rawPvtCurve_def)
  then show ?thesis
    by (simp only: getPvtCurve_valid [OF True] convertToOutputUnits_empty [OF ph assms(2)])
qed

lemma getDynamicPropertySI_absent:
  assumes "interpolant this phase = None"
  shows "getDynamicPropertySI this property phase activeCell phasePress mixRatio = Inr []"
proof (cases "isValidRequest this phase activeCell \<and> property \<noteq> SaturatedState")
  case False
  then show ?thesis by (simp add: getDynamicPropertySI_def)
next
  case True
  then show ?thesis
    using assms
    by (simp add: getDynamicPropertySI_valid interpolant_def oilProperty_def gasProperty_def
          split: if_splits)
qed

lemma getDynamicPropertyNative_absent:
  assumes "interpolant this phase = None" and "recognised property \<or> usys_output this = None"
  shows "getDynamicPropertyNative cvt this property phase activeCell phasePress mixRatio = Inr []"
proof (cases "isValidRequest this phase activeCell \<and> property \<noteq> SaturatedState")
  case False
  then show ?thesis by (simp add: getDynamicPropertyNative_def)
next
  case True
  then have ph: "phase = Liquid \<or> phase = Vapour" by (auto dest: isValidRequest_phase)
  from True assms(2) have k: "property = FVF \<or> property = Viscosity \<or> usys_output this = None"
    by (auto simp add: recognised_def)
  have si: "getDynamicPropertySI this property phase activeCell P R = Inr []" for P R
    using assms(1) by (rule getDynamicPropertySI_absent)
  from ph show ?thesis
  proof
    assume "phase = Liquid"
    with True k si show ?thesis
      by (auto simp add: getDynamicPropertyNative_def appliedTo_def Let_def split: option.splits)
  next
    assume "phase = Vapour"
    with True k si show ?thesis
      by (auto simp add: getDynamicPropertyNative_def appliedTo_def Let_def split: option.splits)
  qed
qed

text \<open>
  \<^bold>\<open>C3.\<close> The statement that every query against an absent interpolant returns the empty
  result and raises nothing fails where the exception of \<^verbatim>\<open>convertToOutputUnits\<close> is
  reached: a valid cell, no oil interpolant, an output unit system, and a curve kind
  that is none of the three named ones.
\<close>

theorem invalid_request_counterexample:
  "getPvtCurve (\<lambda>q x. x) demo (OtherCurve 0) Liquid 0
     = Inl (InvalidArgument ''Internal Logic Error'')
   \<and> oil demo = None"
  by (simp add: getPvtCurve_def demo_def isValidRequest_def vector_size_def vector_at_def
        rawPvtCurve_def convertToOutputUnits_def)

text \<open>
  \<^bold>\<open>C3, as amended.\<close> A request with a phase other than \<open>Liquid\<close> or \<open>Vapour\<close> or with a
  cell index out of range returns the empty result from all three operations; a
  dynamic-property request for \<open>SaturatedState\<close> returns the empty array; a query
  against an absent interpolant returns the empty array from \<^verbatim>\<open>getDynamicPropertySI\<close>,
  and the empty result from the other two operations when the kind is one of the three
  named ones or no output unit system is set. The empty curve is one series without
  samples. No operation fails in any of these cases.
\<close>

theorem invalid_requests_yield_empty:
  "(\<not> isValidRequest this phase activeCell \<longrightarrow>
      getPvtCurve cvt this curve phase activeCell = Inr [([], [])]
      \<and> getDynamicPropertySI this curve phase activeCell phasePress mixRatio = Inr []
      \<and> getDynamicPropertyNative cvt this curve phase activeCell phasePress mixRatio = Inr [])
   \<and> getDynamicPropertySI this SaturatedState phase activeCell phasePress mixRatio = Inr []
   \<and> getDynamicPropertyNative cvt this SaturatedState phase activeCell phasePress mixRatio = Inr []
   \<and> (interpolant this phase = None \<longrightarrow>
        getDynamicPropertySI this curve phase activeCell phasePress mixRatio = Inr [])
   \<and> (interpolant this phase = None \<and> (recognised curve \<or> usys_output this = None) \<longrightarrow>
        getPvtCurve cvt this curve phase activeCell = Inr [([], [])]
        \<and> getDynamicPropertyNative cvt this curve phase activeCell phasePress mixRatio = Inr [])"
  using getPvtCurve_invalid [of this phase activeCell cvt curve]
    getDynamicPropertySI_invalid [of this phase activeCell curve phasePress mixRatio]
    getDynamicPropertySI_invalid [of this phase activeCell SaturatedState phasePress mixRatio]
    getDynamicPropertyNative_invalid [of this phase activeCell curve cvt phasePress mixRatio]
    getDynamicPropertyNative_invalid [of this phase activeCell SaturatedState cvt phasePress mixRatio]
    getDynamicPropertySI_absent [of this phase curve activeCell phasePress mixRatio]
    getPvtCurve_absent [of this phase curve cvt activeCell]
    getDynamicPropertyNative_absent [of this phase curve cvt activeCell phasePress mixRatio]
  by (simp add: emptyFDGraph_def)

theorem invalid_requests_yield_empty_witness:
  "\<not> isValidRequest demo Liquid 5 \<and> isValidRequest demo Liquid 0
   \<and> interpolant demo Liquid = None \<and> recognised FVF
   \<and> getPvtCurve (scaleConverter demoScale) demo FVF Liquid 5 = Inr [([], [])]
   \<and> getDynamicPropertySI demo FVF Liquid 5 [100] [3] = Inr []
   \<and> getDynamicPropertyNative (scaleConverter demoScale) demo FVF Liquid 5 [100] [3] = Inr []
   \<and> getPvtCurve (scaleConverter demoScale) demo FVF Liquid 0 = Inr [([], [])]
   \<and> getDynamicPropertySI demo FVF Liquid 0 [100] [3] = Inr []
   \<and> getDynamicPropertyNative (scaleConverter demoScale) demo FVF Liquid 0 [100] [3] = Inr []"
proof -
  have a: "\<not> isValidRequest demo Liquid 5" and b: "isValidRequest demo Liquid 0"
    by (simp_all add: isValidRequest_def demo_def vector_size_def)
  have c: "interpolant demo Liquid = None"
    by (simp add: interpolant_def demo_def)
  have d: "recognised FVF"
    by (simp add: recognised_def)
  show ?thesis
    using invalid_requests_yield_empty
        [of demo Liquid 5 "scaleConverter demoScale" FVF "[100]" "[3]"]
      invalid_requests_yield_empty
        [of demo Liquid 0 "scaleConverter demoScale" FVF "[100]" "[3]"]
    by (simp add: a b c d)
qed

subsection \<open>Setting the output units\<close>

text \<open>
  \<^bold>\<open>C5.\<close> \<^verbatim>\<open>setOutputUnits\<close> replaces the output unit system and leaves the region tags,
  the interpolants and the native and internal unit systems as they were. A collection
  as constructed has no output unit system. Without one, whether as constructed or
  after \<^verbatim>\<open>setOutputUnits\<close> with a null argument, \<^verbatim>\<open>getPvtCurve\<close> returns the curve in
  internal units, whatever the converters do.
\<close>

theorem setOutputUnits_frame:
  "pvtnum (setOutputUnits this usys) = pvtnum this
   \<and> gas (setOutputUnits this usys) = gas this
   \<and> oil (setOutputUnits this usys) = oil this
   \<and> usys_native (setOutputUnits this usys) = usys_native this
   \<and> usys_internal (setOutputUnits this usys) = usys_internal this
   \<and> usys_output (setOutputUnits this usys) = usys
   \<and> usys_output (ECLPvtCurveCollection_ctor ext G init) = None
   \<and> getPvtCurve cvt (ECLPvtCurveCollection_ctor ext G init) curve phase activeCell
       = Inr (internalCurve (ECLPvtCurveCollection_ctor ext G init) curve phase activeCell)
   \<and> getPvtCurve cvt (setOutputUnits this None) curve phase activeCell
       = Inr (internalCurve this curve phase activeCell)"
proof -
  have a: "usys_output (ECLPvtCurveCollection_ctor ext G init) = None"
    by (simp add: ECLPvtCurveCollection_ctor_def)
  have b: "usys_output (setOutputUnits this None) = None"
    by (simp add: setOutputUnits_def)
  show ?thesis
    using getPvtCurve_no_output [OF a, of cvt curve phase activeCell]
      getPvtCurve_no_output [OF b, of cvt curve phase activeCell]
    by (simp add: internalCurve_setOutputUnits a) (simp add: setOutputUnits_def)
qed

subsection \<open>The empty mixing ratio\<close>

lemma oilProperty_empty_ratio:
  "oilProperty pvt property regID Po [] = oilProperty pvt property regID Po (replicate (length Po) 0)"
  by (simp add: oilProperty_def Let_def)

lemma gasProperty_empty_ratio:
  "gasProperty pvt property regID Pg [] = gasProperty pvt property regID Pg (replicate (length Pg) 0)"
  by (simp add: gasProperty_def Let_def)

lemma getDynamicPropertySI_empty_ratio:
  "getDynamicPropertySI this property phase activeCell phasePress []
     = getDynamicPropertySI this property phase activeCell phasePress
         (replicate (length phasePress) 0)"
proof (cases "isValidRequest this phase activeCell \<and> property \<noteq> SaturatedState")
  case False
  then show ?thesis by (auto simp add: getDynamicPropertySI_def)
next
  case True
  then have v: "isValidRequest this phase activeCell" and p: "property \<noteq> SaturatedState"
    by simp_all
  show ?thesis
    unfolding getDynamicPropertySI_valid [OF v p]
    by (simp only: oilProperty_empty_ratio [symmetric] gasProperty_empty_ratio [symmetric])
qed

lemma getDynamicPropertySI_empty_ratio_len:
  "length P = n \<Longrightarrow>
     getDynamicPropertySI this property phase activeCell P []
       = getDynamicPropertySI this property phase activeCell P (replicate n 0)"
  using getDynamicPropertySI_empty_ratio [of this property phase activeCell P] by simp

lemma getDynamicPropertyNative_empty_ratio:
  assumes "cvt (Convert (ratioQuantity phase) (usys_native this) (usys_internal this)) 0 = 0"
  shows "getDynamicPropertyNative cvt this property phase activeCell phasePress []
           = getDynamicPropertyNative cvt this property phase activeCell phasePress
               (replicate (length phasePress) 0)"
proof (cases "phase = Liquid")
  case True
  with assms show ?thesis
    by (simp add: getDynamicPropertyNative_def appliedTo_def ratioQuantity_def Let_def
          getDynamicPropertySI_empty_ratio_len)
next
  case False
  with assms show ?thesis
    by (simp add: getDynamicPropertyNative_def appliedTo_def ratioQuantity_def Let_def
          getDynamicPropertySI_empty_ratio_len)
qed

text \<open>
  \<^bold>\<open>C6.\<close> An empty mixing-ratio array gives the same result as an array of zeros as long
  as the pressure array. For the query in internal units this holds as it stands. The
  query in native units converts the mixing ratio before the zeros are filled in, so
  there it holds when the ratio converter of the phase takes zero to zero, and so for
  every converter that multiplies by a scale factor.
\<close>

theorem empty_mixing_ratio_as_zeros:
  fixes this :: "('u, 'v::mult_zero) ECLPvtCurveCollection"
  shows "getDynamicPropertySI this property phase activeCell phasePress []
           = getDynamicPropertySI this property phase activeCell phasePress
               (replicate (length phasePress) 0)
         \<and> (cvt (Convert (ratioQuantity phase) (usys_native this) (usys_internal this)) 0 = 0 \<longrightarrow>
              getDynamicPropertyNative cvt this property phase activeCell phasePress []
                = getDynamicPropertyNative cvt this property phase activeCell phasePress
                    (replicate (length phasePress) 0))
         \<and> getDynamicPropertyNative (scaleConverter scaleFactor) this property phase activeCell
              phasePress []
             = getDynamicPropertyNative (scaleConverter scaleFactor) this property phase activeCell
                 phasePress (replicate (length phasePress) 0)"
proof -
  have "scaleConverter scaleFactor
          (Convert (ratioQuantity phase) (usys_native this) (usys_internal this)) (0::'v) = 0"
    by (simp add: scaleConverter_def)
  then show ?thesis
    using getDynamicPropertyNative_empty_ratio [of cvt phase this property activeCell phasePress]
      getDynamicPropertyNative_empty_ratio
        [of "scaleConverter scaleFactor" phase this property activeCell phasePress]
      getDynamicPropertySI_empty_ratio [of this property phase activeCell phasePress]
    by simp
qed

theorem empty_mixing_ratio_as_zeros_witness:
  "scaleConverter demoScale
     (Convert (ratioQuantity Vapour) (usys_native demo) (usys_internal demo)) 0 = 0
   \<and> getDynamicPropertySI demo Viscosity Vapour 1 [100, 200] [] = Inr [100, 200]
   \<and> getDynamicPropertySI demo Viscosity Vapour 1 [100, 200] [0, 0] = Inr [100, 200]
   \<and> getDynamicPropertyNative (scaleConverter demoScale) demo Viscosity Vapour 1 [100, 200] []
       = Inr [600, 1200]
   \<and> getDynamicPropertyNative (scaleConverter demoScale) demo Viscosity Vapour 1 [100, 200] [0, 0]
       = Inr [600, 1200]"
proof -
  have z: "scaleConverter demoScale
             (Convert (ratioQuantity Vapour) (usys_native demo) (usys_internal demo)) 0 = 0"
    by (simp add: scaleConverter_def)
  have v: "isValidRequest demo Vapour 1"
    by (simp add: isValidRequest_def demo_def vector_size_def)
  have si: "getDynamicPropertySI demo Viscosity Vapour 1 P [] = Inr P" if "length P = 2" for P
    using that
    by (simp add: getDynamicPropertySI_valid [OF v])
       (simp add: demo_def gasProperty_def viscosity_def tabulated_def map2_map_map
          numeral_2_eq_2 length_Suc_conv, auto)
  have n: "getDynamicPropertyNative (scaleConverter demoScale) demo Viscosity Vapour 1
             [100, 200] [] = Inr [600, 1200]"
    using v
    by (simp add: getDynamicPropertyNative_def appliedTo_def Let_def si)
       (simp add: demo_def appliedTo_def scaleConverter_def demoScale_def Convert_def)
  show ?thesis
    using empty_mixing_ratio_as_zeros
        [of demo Viscosity Vapour 1 "[100, 200]" "scaleConverter demoScale" demoScale]
    by (simp add: z n si)
qed

subsection \<open>Region tags\<close>

lemma pvtnumVector_default:
  "rawLinearisedCellData G init ''PVTNUM'' = [] \<Longrightarrow> pvtnumVector G init = replicate (numCells G) 1"
  by (simp add: pvtnumVector_def)

text \<open>
  \<^bold>\<open>C7.\<close> When the data source has no region tags, the constructor gives every cell
  the tag 1, so that the tag less one is 0 at every cell, and every valid request is
  answered from region 0 of the interpolant. In general the region of a valid request
  is the tag at the cell index less one; on a vector that fits in memory the cell
  index of a valid request is not negative and is the position read.
\<close>

theorem default_region_tag:
  assumes "rawLinearisedCellData G init ''PVTNUM'' = []"
    and "C = ECLPvtCurveCollection_ctor ext G init"
  shows "pvtnum C = replicate (numCells G) 1
         \<and> (\<forall>i<numCells G. pvtnum C ! i - 1 = 0)
         \<and> (isValidRequest C phase activeCell \<longrightarrow>
              getPvtCurve cvt C curve phase activeCell
                = Inr (rawPvtCurve (interpolant C phase) curve 0)
              \<and> (property \<noteq> SaturatedState \<longrightarrow>
                   getDynamicPropertySI C property phase activeCell phasePress mixRatio
                     = (if phase = Liquid
                        then oilProperty (oil C) property 0 phasePress mixRatio
                        else gasProperty (gas C) property 0 phasePress mixRatio)))
         \<and> (isValidRequest this phase activeCell \<and> representable (pvtnum this) \<longrightarrow>
              0 \<le> sint activeCell \<and> nat (sint activeCell) < length (pvtnum this)
              \<and> getPvtCurve cvt this curve phase activeCell
                  = convertToOutputUnits cvt this
                      (rawPvtCurve (interpolant this phase) curve
                         (pvtnum this ! nat (sint activeCell) - 1))
                      curve phase
              \<and> (property \<noteq> SaturatedState \<longrightarrow>
                   getDynamicPropertySI this property phase activeCell phasePress mixRatio
                     = (if phase = Liquid
                        then oilProperty (oil this) property
                               (pvtnum this ! nat (sint activeCell) - 1) phasePress mixRatio
                        else gasProperty (gas this) property
                               (pvtnum this ! nat (sint activeCell) - 1) phasePress mixRatio)))"
proof -
  have tags: "pvtnum C = replicate (numCells G) 1"
    using assms by (simp add: ECLPvtCurveCollection_ctor_def pvtnumVector_default)
  have out: "usys_output C = None"
    using assms(2) by (simp add: ECLPvtCurveCollection_ctor_def)
  have zero: "\<forall>i<numCells G. pvtnum C ! i - 1 = 0"
    by (simp add: tags)
  have dflt: "getPvtCurve cvt C curve phase activeCell
                = Inr (rawPvtCurve (interpolant C phase) curve 0)
              \<and> (property \<noteq> SaturatedState \<longrightarrow>
                   getDynamicPropertySI C property phase activeCell phasePress mixRatio
                     = (if phase = Liquid
                        then oilProperty (oil C) property 0 phasePress mixRatio
                        else gasProperty (gas C) property 0 phasePress mixRatio))"
    if v: "isValidRequest C phase activeCell"
  proof -
    have "unat (scast activeCell :: size_t) < numCells G"
      using isValidRequest_index [OF v] by (simp add: tags)
    then have r: "pvtnum C ! unat (scast activeCell :: size_t) - 1 = 0"
      by (simp add: tags)
    show ?thesis
      using v
      by (simp add: getPvtCurve_valid getDynamicPropertySI_valid r interpolant_def
            convertToOutputUnits_no_output [OF out])
  qed
  have gen: "0 \<le> sint activeCell \<and> nat (sint activeCell) < length (pvtnum this)
              \<and> getPvtCurve cvt this curve phase activeCell
                  = convertToOutputUnits cvt this
                      (rawPvtCurve (interpolant this phase) curve
                         (pvtnum this ! nat (sint activeCell) - 1))
                      curve phase
              \<and> (property \<noteq> SaturatedState \<longrightarrow>
                   getDynamicPropertySI this property phase activeCell phasePress mixRatio
                     = (if phase = Liquid
                        then oilProperty (oil this) property
                               (pvtnum this ! nat (sint activeCell) - 1) phasePress mixRatio
                        else gasProperty (gas this) property
                               (pvtnum this ! nat (sint activeCell) - 1) phasePress mixRatio))"
    if v: "isValidRequest this phase activeCell" and r: "representable (pvtnum this)"
  proof -
    have nn: "0 \<le> sint activeCell" using v r by (rule isValidRequest_nonneg)
    then have ix: "unat (scast activeCell :: size_t) = nat (sint activeCell)"
      by (rule unat_scast_nonneg)
    have "nat (sint activeCell) < length (pvtnum this)"
      using isValidRequest_index [OF v] by (simp only: ix)
    with nn v show ?thesis
      by (simp add: getPvtCurve_valid getDynamicPropertySI_valid ix interpolant_def)
  qed
  from tags zero dflt gen show ?thesis by blast
qed

theorem default_region_tag_witness:
  "rawLinearisedCellData uniformGrid () ''PVTNUM'' = []
   \<and> pvtnum (ECLPvtCurveCollection_ctor factories uniformGrid ()) = replicate 10 1
   \<and> (3::nat) < numCells uniformGrid
   \<and> pvtnum (ECLPvtCurveCollection_ctor factories uniformGrid ()) ! 3 - 1 = 0
   \<and> isValidRequest (ECLPvtCurveCollection_ctor factories uniformGrid ()) Liquid 3
   \<and> getPvtCurve (scaleConverter demoScale) (ECLPvtCurveCollection_ctor factories uniformGrid ())
        FVF Liquid 3 = Inr (pvt_getPvtCurve tabulated FVF 0)
   \<and> isValidRequest demo Vapour 2 \<and> representable (pvtnum demo)
   \<and> getDynamicPropertySI demo FVF Vapour 2 [100] [3]
       = gasProperty (gas demo) FVF (pvtnum demo ! 2 - 1) [100] [3]
   \<and> pvtnum demo ! 2 - 1 = 1"
proof -
  let ?C = "ECLPvtCurveCollection_ctor factories uniformGrid ()"
  have h: "rawLinearisedCellData uniformGrid () ''PVTNUM'' = []"
    by (simp add: uniformGrid_def)
  have n: "numCells uniformGrid = 10"
    by (simp add: uniformGrid_def)
  have v: "isValidRequest ?C Liquid 3"
    by (simp add: isValidRequest_def ECLPvtCurveCollection_ctor_def pvtnumVector_def
          uniformGrid_def vector_size_def)
  have o: "interpolant ?C Liquid = Some tabulated"
    by (simp add: interpolant_def ECLPvtCurveCollection_ctor_def factories_def)
  have w: "isValidRequest demo Vapour 2"
    by (simp add: isValidRequest_def demo_def vector_size_def)
  have r: "representable (pvtnum demo)"
    by (simp add: representable_def demo_def)
  have s: "sint (2 :: cint) = 2"
    by simp
  have t: "pvtnum demo ! 2 - 1 = 1"
    by (simp add: demo_def)
  have k: "FVF \<noteq> SaturatedState"
    by simp
  show ?thesis
    using default_region_tag
        [OF h refl, of factories Liquid 3 "scaleConverter demoScale" FVF FVF "[100]" "[3]"
           demo]
      default_region_tag
        [OF h refl, of factories Vapour 2 "scaleConverter demoScale" FVF FVF "[100]" "[3]"
           demo]
    by (simp add: h n v o w r s t rawPvtCurve_def)
qed

subsection \<open>A curve kind that is none of the three\<close>

text \<open>
  \<^bold>\<open>C8.\<close> With an output unit system set and a supported phase, a curve kind that is
  none of the three named ones makes \<^verbatim>\<open>convertToOutputUnits\<close> raise
  \<^verbatim>\<open>std::invalid_argument\<close>, and \<^verbatim>\<open>getPvtCurve\<close> on a valid request passes the
  exception on: the outcome is an error, not the empty curve. Whatever the phase, the
  conversion of such a curve kind ends in an error and never in a curve.
\<close>

theorem unrecognised_curve_raises:
  assumes "usys_output this = Some usys_out" and "phase = Liquid \<or> phase = Vapour"
  shows "convertToOutputUnits cvt this graph (OtherCurve k) phase
           = Inl (InvalidArgument ''Internal Logic Error'')
         \<and> (isValidRequest this phase activeCell \<longrightarrow>
              getPvtCurve cvt this (OtherCurve k) phase activeCell
                = Inl (InvalidArgument ''Internal Logic Error''))
         \<and> (\<exists>e. convertToOutputUnits cvt this graph (OtherCurve k) anyPhase = Inl e)"
proof -
  have c: "convertToOutputUnits cvt this g (OtherCurve k) phase
           = Inl (InvalidArgument ''Internal Logic Error'')" for g
    using assms by (auto simp add: convertToOutputUnits_def)
  have d: "\<exists>e. convertToOutputUnits cvt this graph (OtherCurve k) anyPhase = Inl e"
    using assms(1) by (simp add: convertToOutputUnits_def)
  show ?thesis
    using d by (simp add: c getPvtCurve_valid)
qed

theorem unrecognised_curve_raises_witness:
  "usys_output demo = Some 2 \<and> isValidRequest demo Vapour 0
   \<and> convertToOutputUnits (scaleConverter demoScale) demo [([1], [2])] (OtherCurve 4) Vapour
       = Inl (InvalidArgument ''Internal Logic Error'')
   \<and> getPvtCurve (scaleConverter demoScale) demo (OtherCurve 4) Vapour 0
       = Inl (InvalidArgument ''Internal Logic Error'')"
proof -
  have h: "usys_output demo = Some 2"
    by (simp add: demo_def)
  have p: "Vapour = Liquid \<or> Vapour = Vapour"
    by simp
  have v: "isValidRequest demo Vapour 0"
    by (simp add: isValidRequest_def demo_def vector_size_def)
  show ?thesis
    using unrecognised_curve_raises
        [OF h p, of "scaleConverter demoScale" "[([1], [2])]" 4 0 Liquid]
    by (simp add: h v)
qed

text \<open>
  \<^bold>\<open>C9.\<close> Without an output unit system, \<^verbatim>\<open>convertToOutputUnits\<close> returns the curve it
  was given, for every curve kind and every phase; \<^verbatim>\<open>getPvtCurve\<close> then returns the
  curve in internal units for every curve kind, also one that is none of the three
  named ones, and does not raise the exception of the final branch.
\<close>

theorem no_output_units_no_dispatch:
  assumes "usys_output this = None"
  shows "convertToOutputUnits cvt this graph curve phase = Inr graph
         \<and> getPvtCurve cvt this curve phase activeCell
             = Inr (internalCurve this curve phase activeCell)
         \<and> getPvtCurve cvt this curve phase activeCell
             \<noteq> Inl (InvalidArgument ''Internal Logic Error'')"
  using convertToOutputUnits_no_output [OF assms, of cvt graph curve phase]
    getPvtCurve_no_output [OF assms, of cvt curve phase activeCell]
  by simp

theorem no_output_units_no_dispatch_witness:
  "usys_output (demo\<lparr>usys_output := None\<rparr>) = None
   \<and> convertToOutputUnits (\<lambda>q x. x + 1) (demo\<lparr>usys_output := None\<rparr>) [([7], [8])]
        (OtherCurve 7) (OtherPhase 3) = Inr [([7], [8])]
   \<and> getPvtCurve (\<lambda>q x. x + 1) (demo\<lparr>usys_output := None\<rparr>) (OtherCurve 7) Vapour 2
        = Inr [([1, 2], [3, 4]), ([5], [6])]"
proof -
  have h: "usys_output (demo\<lparr>usys_output := None\<rparr>) = None" by simp
  have v: "isValidRequest (demo\<lparr>usys_output := None\<rparr>) Vapour 2"
    by (simp add: isValidRequest_def demo_def vector_size_def)
  have c: "internalCurve (demo\<lparr>usys_output := None\<rparr>) (OtherCurve 7) Vapour 2
             = [([1, 2], [3, 4]), ([5], [6])]"
    by (simp add: internalCurve_def v) (simp add: interpolant_def demo_def rawPvtCurve_def tabulated_def)
  show ?thesis
    using no_output_units_no_dispatch [OF h, of "\<lambda>q x. x + 1" "[([7], [8])]" "OtherCurve 7"
        "OtherPhase 3" 2]
      no_output_units_no_dispatch [OF h, of "\<lambda>q x. x + 1" "[]" "OtherCurve 7" Vapour 2]
    by (simp add: c)
qed

subsection \<open>Negative cell indices\<close>

lemma property_not_OutOfBounds:
  "oilProperty pvt property regID P R \<noteq> Inl OutOfBounds"
  "gasProperty pvt property regID P R \<noteq> Inl OutOfBounds"
  by (cases pvt; simp add: oilProperty_def gasProperty_def formationVolumeFactor_def
        viscosity_def Let_def)+

lemma convertToOutputUnits_not_OutOfBounds:
  "convertToOutputUnits cvt this graph curve phase \<noteq> Inl OutOfBounds"
  by (simp add: convertToOutputUnits_def convertFvfCurve_def convertViscosityCurve_def
        convertSatStateCurve_def Let_def split: option.splits)

lemma getPvtCurve_not_OutOfBounds:
  "getPvtCurve cvt this curve phase activeCell \<noteq> Inl OutOfBounds"
proof (cases "isValidRequest this phase activeCell")
  case False
  then show ?thesis by (simp add: getPvtCurve_invalid)
next
  case True
  then show ?thesis
    by (simp only: getPvtCurve_valid convertToOutputUnits_not_OutOfBounds not_False_eq_True)
qed

lemma getDynamicPropertySI_not_OutOfBounds:
  "getDynamicPropertySI this property phase activeCell P R \<noteq> Inl OutOfBounds"
proof (cases "isValidRequest this phase activeCell \<and> property \<noteq> SaturatedState")
  case False
  then show ?thesis by (simp add: getDynamicPropertySI_def)
next
  case True
  then show ?thesis
    by (simp add: getDynamicPropertySI_valid property_not_OutOfBounds)
qed

lemma getDynamicPropertyNative_not_OutOfBounds:
  "getDynamicPropertyNative cvt this property phase activeCell P R \<noteq> Inl OutOfBounds"
proof -
  have si: "getDynamicPropertySI this property phase activeCell P' R' \<noteq> Inl OutOfBounds" for P' R'
    by (rule getDynamicPropertySI_not_OutOfBounds)
  consider "phase = Liquid" | "phase = Vapour" | "phase \<noteq> Liquid \<and> phase \<noteq> Vapour"
    by blast
  then show ?thesis
  proof cases
    case 1
    with si show ?thesis
      by (auto simp add: getDynamicPropertyNative_def Let_def split: sum.splits option.splits)
  next
    case 2
    with si show ?thesis
      by (auto simp add: getDynamicPropertyNative_def Let_def split: sum.splits option.splits)
  next
    case 3
    then show ?thesis
      by (simp add: getDynamicPropertyNative_def isValidRequest_def)
  qed
qed

text \<open>
  \<^bold>\<open>C10.\<close> A negative cell index is not a valid request on any region-tag vector that
  fits in memory, so all three operations return the empty result; and for no cell
  index at all does an operation read the region-tag vector outside its bounds.
\<close>

theorem negative_cell_index_rejected:
  assumes "sint activeCell < 0" and "representable (pvtnum this)"
  shows "\<not> isValidRequest this phase activeCell
         \<and> getPvtCurve cvt this curve phase activeCell = Inr [([], [])]
         \<and> getDynamicPropertySI this curve phase activeCell phasePress mixRatio = Inr []
         \<and> getDynamicPropertyNative cvt this curve phase activeCell phasePress mixRatio = Inr []
         \<and> (\<forall>c. getPvtCurve cvt this curve phase c \<noteq> Inl OutOfBounds
               \<and> getDynamicPropertySI this curve phase c phasePress mixRatio \<noteq> Inl OutOfBounds
               \<and> getDynamicPropertyNative cvt this curve phase c phasePress mixRatio
                   \<noteq> Inl OutOfBounds)"
proof -
  have inv: "\<not> isValidRequest this phase activeCell"
    using isValidRequest_nonneg [OF _ assms(2), of phase activeCell] assms(1) by auto
  then show ?thesis
    by (simp add: getPvtCurve_invalid getDynamicPropertySI_invalid
          getDynamicPropertyNative_invalid emptyFDGraph_def getPvtCurve_not_OutOfBounds
          getDynamicPropertySI_not_OutOfBounds getDynamicPropertyNative_not_OutOfBounds)
qed

theorem negative_cell_index_rejected_witness:
  "sint (- 1 :: cint) < 0 \<and> representable (pvtnum demo)
   \<and> \<not> isValidRequest demo Vapour (- 1)
   \<and> getPvtCurve (scaleConverter demoScale) demo FVF Vapour (- 1) = Inr [([], [])]
   \<and> getDynamicPropertySI demo FVF Vapour (- 1) [100] [3] = Inr []
   \<and> getDynamicPropertyNative (scaleConverter demoScale) demo FVF Vapour (- 1) [100] [3] = Inr []"
proof -
  have a: "sint (- 1 :: cint) < 0"
    by simp
  have r: "representable (pvtnum demo)"
    by (simp add: representable_def demo_def)
  show ?thesis
    using negative_cell_index_rejected
        [OF a r, of Vapour "scaleConverter demoScale" FVF "[100]" "[3]"]
    by (simp add: r)
qed

end
